theory Spec2Isabelle
  imports Complex_Main "HOL-Library.Multiset"
begin

section \<open>Data model\<close>

text \<open>
  The credit ledger of the AgroFlow backend: customers (credit accounts), sales (credit
  obligations) and payment records, as the Mongoose schemas have them, and the Express
  routes that work on them.

  A document has the paths of its schema and no others.  The routes also name paths that no
  schema declares: \<open>sale.paidAmount\<close>, \<open>sale.payments\<close>,
  \<open>sale.creditDetails.remainingAmount\<close> and \<open>customer.currentCredit\<close>.  Reading such a
  path gives \<open>undefined\<close>, arithmetic on it gives NaN, calling a method on it throws a
  TypeError, and an assignment to it is not stored.  The records below have the schema
  paths only, and the routes are modelled with these reads and throws.

  JavaScript numbers that come from a request or a stored document are modelled as exact
  rationals (rounding of doubles is not modelled); a computed value can also be an
  infinity, NaN or \<open>undefined\<close>.  Dates are milliseconds since the epoch; document ids are
  natural numbers.  A collection is the list of its documents in storage order.
\<close>

type_synonym number = rat
type_synonym oid = nat
type_synonym date = int

datatype jsval = Num number | PosInfinity | NegInfinity | NaN | Undefined

datatype customer_status = Active | Inactive | Blocked
datatype sale_status = Pending | Completed | Cancelled
datatype payment_type = Cash | Credit | Online
datatype entry_status = EPending | ECompleted | EFailed | EPaid | EPartiallyPaid
datatype pay_method = MCash | MBankTransfer | MCreditCard | MCheck | MRazorpay | MOther
datatype detail_method = DCash | DQr | DCredit | DRazorpay
datatype detail_status = DPending | DCompleted | DFailed

record paymentHistoryEntry =
  ph_amount :: number
  ph_method :: "pay_method option"
  ph_status :: entry_status
  ph_saleId :: "oid option"

record customer =
  c_id :: oid
  creditLimit :: number
  creditBalance :: number
  paymentHistory :: "paymentHistoryEntry list"
  c_status :: customer_status

text \<open>A sale: \<open>dueDate\<close>, \<open>interestRate\<close> and \<open>cd_paidAmount\<close> are the paths of
  \<open>creditDetails\<close> (\<open>creditDetails.paidAmount\<close> is the amount paid so far);
  \<open>paymentDetails_method\<close> and \<open>paymentDetails_status\<close> are those of
  \<open>paymentDetails\<close> that the routes set.\<close>

record sale =
  s_id :: oid
  s_customer :: oid
  totalAmount :: number
  paymentType :: payment_type
  s_status :: sale_status
  createdAt :: date
  dueDate :: "date option"
  interestRate :: number
  cd_paidAmount :: number
  paymentDetails_method :: "detail_method option"
  paymentDetails_status :: detail_status

record payment =
  p_id :: oid
  p_sale :: "oid option"
  p_customer :: "oid option"
  p_amount :: jsval
  p_date :: date
  p_method :: pay_method

record product =
  pr_id :: oid
  quantity :: number

record db =
  customers :: "customer list"
  sales :: "sale list"
  paymentRecords :: "payment list"
  products :: "product list"

datatype error =
    MissingRequiredFields
  | CustomerNotFound
  | CreditLimitExceeded
  | ProductNotFound oid
  | InsufficientStock oid
  | SaleNotFound
  | NotACreditSale
  | SaleAlreadyCompleted
  | SaleAlreadyPaidInFull
  | SaleAlreadyInThisStatus
  | AmountMustBePositive
  | AmountExceedsRemainingBalance
  | AmountExceedsCreditBalance
  | CreditBalanceNegative
  | BalanceExceedsLimit
  | ValidationError
  | InvalidPaymentDataFormat
  | MissingPaymentFields
  | NoPendingSales
  | InvalidSignature
  | RazorpayNotInitialized
  | LimitBelowBalance
  | QRCodeError
  | ReferenceError
  | TypeError

section \<open>JavaScript arithmetic\<close>

text \<open>Subtraction, \<open>Math.min\<close> and the comparisons on values that may be NaN or
  \<open>undefined\<close>: \<open>undefined\<close> converts to NaN, an operation on NaN gives NaN, and a
  comparison with NaN is false.\<close>

fun js_sub :: "jsval \<Rightarrow> jsval \<Rightarrow> jsval" where
  "js_sub (Num a) (Num b) = Num (a - b)"
| "js_sub NaN y = NaN"
| "js_sub Undefined y = NaN"
| "js_sub x NaN = NaN"
| "js_sub x Undefined = NaN"
| "js_sub PosInfinity PosInfinity = NaN"
| "js_sub NegInfinity NegInfinity = NaN"
| "js_sub PosInfinity y = PosInfinity"
| "js_sub NegInfinity y = NegInfinity"
| "js_sub x PosInfinity = NegInfinity"
| "js_sub x NegInfinity = PosInfinity"

fun Math_min :: "jsval \<Rightarrow> jsval \<Rightarrow> jsval" where
  "Math_min (Num a) (Num b) = Num (min a b)"
| "Math_min NaN y = NaN"
| "Math_min Undefined y = NaN"
| "Math_min x NaN = NaN"
| "Math_min x Undefined = NaN"
| "Math_min NegInfinity y = NegInfinity"
| "Math_min x NegInfinity = NegInfinity"
| "Math_min PosInfinity y = y"
| "Math_min x PosInfinity = x"

fun js_le :: "jsval \<Rightarrow> jsval \<Rightarrow> bool" where
  "js_le (Num a) (Num b) = (a \<le> b)"
| "js_le NaN y = False"
| "js_le Undefined y = False"
| "js_le x NaN = False"
| "js_le x Undefined = False"
| "js_le NegInfinity y = True"
| "js_le x PosInfinity = True"
| "js_le PosInfinity y = False"
| "js_le x NegInfinity = False"

definition js_gt :: "jsval \<Rightarrow> jsval \<Rightarrow> bool" where
  "js_gt x y = (js_le y x \<and> \<not> js_le x y)"

section \<open>Collections\<close>

definition findCustomer :: "db \<Rightarrow> oid \<Rightarrow> customer option" where
  "findCustomer d i = find (\<lambda>c. c_id c = i) (customers d)"

definition findSale :: "db \<Rightarrow> oid \<Rightarrow> sale option" where
  "findSale d i = find (\<lambda>s. s_id s = i) (sales d)"

definition findProduct :: "db \<Rightarrow> oid \<Rightarrow> product option" where
  "findProduct d i = find (\<lambda>p. pr_id p = i) (products d)"

definition putCustomer :: "customer \<Rightarrow> db \<Rightarrow> db" where
  "putCustomer c d = d\<lparr>customers := map (\<lambda>x. if c_id x = c_id c then c else x) (customers d)\<rparr>"

definition putSale :: "sale \<Rightarrow> db \<Rightarrow> db" where
  "putSale s d = d\<lparr>sales := map (\<lambda>x. if s_id x = s_id s then s else x) (sales d)\<rparr>"

definition putProduct :: "product \<Rightarrow> db \<Rightarrow> db" where
  "putProduct p d = d\<lparr>products := map (\<lambda>x. if pr_id x = pr_id p then p else x) (products d)\<rparr>"

section \<open>Customer model (models/Customer.js)\<close>

definition availableCredit :: "customer \<Rightarrow> number" where
  "availableCredit c = creditLimit c - creditBalance c"

definition canMakeCreditPurchase :: "customer \<Rightarrow> number \<Rightarrow> bool" where
  "canMakeCreditPurchase c amount =
     (c_status c = Active \<and> creditBalance c + amount \<le> creditLimit c)"

text \<open>Schema validation of a payment-history entry: \<open>amount\<close> has \<open>min: 0\<close>,
  \<open>method\<close> is required and one of cash, bank_transfer, check; \<open>status\<close> is one of
  pending, completed, failed.\<close>

definition validEntry :: "paymentHistoryEntry \<Rightarrow> bool" where
  "validEntry e =
     (0 \<le> ph_amount e \<and> ph_method e \<in> {Some MCash, Some MBankTransfer, Some MCheck}
      \<and> ph_status e \<in> {EPending, ECompleted, EFailed})"

text \<open>\<open>customer.save()\<close>: the schema validators run first (\<open>creditLimit\<close> and
  \<open>creditBalance\<close> have \<open>min: 0\<close>, every embedded entry is validated), then the
  pre-save hook rejects a balance above the limit.\<close>

definition validateCustomer :: "customer \<Rightarrow> error + customer" where
  "validateCustomer c =
     (if \<not> (0 \<le> creditLimit c \<and> 0 \<le> creditBalance c \<and> list_all validEntry (paymentHistory c))
      then Inl ValidationError
      else if creditBalance c > creditLimit c then Inl BalanceExceedsLimit
      else Inr c)"

definition saveCustomer :: "customer \<Rightarrow> db \<Rightarrow> error + db" where
  "saveCustomer c d =
     (case validateCustomer c of Inl e \<Rightarrow> Inl e | Inr c' \<Rightarrow> Inr (putCustomer c' d))"



section \<open>Sale model (models/Sale.js)\<close>

definition remainingBalance :: "sale \<Rightarrow> number" where
  "remainingBalance s = (if paymentType s \<noteq> Credit then 0 else totalAmount s - cd_paidAmount s)"

definition dueAmount :: "sale \<Rightarrow> number" where
  "dueAmount s =
     (if paymentType s \<noteq> Credit then 0 else remainingBalance s * (1 + interestRate s / 100))"

text \<open>\<open>sale.save()\<close>: \<open>totalAmount\<close>, \<open>interestRate\<close> and
  \<open>creditDetails.paidAmount\<close> have \<open>min: 0\<close>; \<open>paymentDetails.method\<close> is one of cash,
  qr, credit.\<close>

definition validateSale :: "sale \<Rightarrow> error + sale" where
  "validateSale s =
     (if 0 \<le> totalAmount s \<and> 0 \<le> interestRate s \<and> 0 \<le> cd_paidAmount s
         \<and> paymentDetails_method s \<noteq> Some DRazorpay
      then Inr s
      else Inl ValidationError)"

definition saveSale :: "sale \<Rightarrow> db \<Rightarrow> error + db" where
  "saveSale s d = (case validateSale s of Inl e \<Rightarrow> Inl e | Inr s' \<Rightarrow> Inr (putSale s' d))"


text \<open>\<open>product.save()\<close>: \<open>quantity\<close> has \<open>min: 0\<close>.\<close>

definition saveProduct :: "product \<Rightarrow> db \<Rightarrow> error + db" where
  "saveProduct p d = (if 0 \<le> quantity p then Inr (putProduct p d) else Inl ValidationError)"

section \<open>Creating a sale (routes/sales.js, POST /)\<close>

record item =
  it_product :: oid
  it_quantity :: number

text \<open>The request body.  A field that is absent is \<open>None\<close>; \<open>totalAmount = 0\<close> is falsy
  in the required-fields test, as in JavaScript.\<close>

record saleRequest =
  rq_customerId :: "oid option"
  rq_items :: "item list option"
  rq_paymentType :: "payment_type option"
  rq_totalAmount :: "number option"
  rq_dueDate :: "date option"
  rq_interestRate :: number

text \<open>The stock loop saves each product as it goes; there is no transaction, so the
  products saved before a throw stay saved.\<close>

fun updateStock :: "item list \<Rightarrow> db \<Rightarrow> db \<times> error option" where
  "updateStock [] d = (d, None)"
| "updateStock (it # its) d =
     (case findProduct d (it_product it) of
        None \<Rightarrow> (d, Some (ProductNotFound (it_product it)))
      | Some p \<Rightarrow>
          if quantity p < it_quantity it then (d, Some (InsufficientStock (it_product it)))
          else (case saveProduct (p\<lparr>quantity := quantity p - it_quantity it\<rparr>) d of
                  Inl e \<Rightarrow> (d, Some e)
                | Inr d' \<Rightarrow> updateStock its d'))"

text \<open>The rollback of the catch block: every item of the request is added back, whether
  or not it had been taken; a throw inside the rollback is logged and ends it.\<close>

fun restoreStock :: "item list \<Rightarrow> db \<Rightarrow> db" where
  "restoreStock [] d = d"
| "restoreStock (it # its) d =
     (case findProduct d (it_product it) of
        None \<Rightarrow> restoreStock its d
      | Some p \<Rightarrow>
          (case saveProduct (p\<lparr>quantity := quantity p + it_quantity it\<rparr>) d of
             Inl e \<Rightarrow> d
           | Inr d' \<Rightarrow> restoreStock its d'))"

definition newSale :: "oid \<Rightarrow> date \<Rightarrow> oid \<Rightarrow> payment_type \<Rightarrow> number \<Rightarrow> saleRequest \<Rightarrow> sale" where
  "newSale i now cid pt amount rq =
     \<lparr>s_id = i, s_customer = cid, totalAmount = amount, paymentType = pt,
      s_status = (if pt = Credit then Pending else Completed), createdAt = now,
      dueDate = (if pt = Credit then rq_dueDate rq else None),
      interestRate = (if pt = Credit then rq_interestRate rq else 0),
      cd_paidAmount = 0, paymentDetails_method = None, paymentDetails_status = DPending\<rparr>"

text \<open>The validation of the customer for a credit sale: the error thrown, if any.\<close>

definition creditCheck :: "db \<Rightarrow> oid \<Rightarrow> number \<Rightarrow> error option" where
  "creditCheck d cid amount =
     (case findCustomer d cid of
        None \<Rightarrow> Some CustomerNotFound
      | Some c \<Rightarrow> if \<not> canMakeCreditPurchase c amount then Some CreditLimitExceeded else None)"

text \<open>The try block of the route: the state reached and either the error thrown or the
  sale created.  \<open>i\<close> is the id of the new sale, \<open>now\<close> the clock.  Of an item only
  the product and the quantity are modelled.  The addition to \<open>customer.currentCredit\<close>
  is not stored (no such path); the customer is saved with a payment-history entry that has
  no \<open>method\<close>, which the schema requires.\<close>

definition createSale_try :: "oid \<Rightarrow> date \<Rightarrow> saleRequest \<Rightarrow> db \<Rightarrow> db \<times> (error + sale)" where
  "createSale_try i now rq d =
     (case (rq_customerId rq, rq_items rq, rq_paymentType rq, rq_totalAmount rq) of
        (Some cid, Some its, Some pt, Some amount) \<Rightarrow>
          if amount = 0 then (d, Inl MissingRequiredFields)
          else
          (case (if pt = Credit then creditCheck d cid amount else None) of
            Some e \<Rightarrow> (d, Inl e)
          | None \<Rightarrow>
            (case updateStock its d of
               (d1, Some e) \<Rightarrow> (d1, Inl e)
             | (d1, None) \<Rightarrow>
                 (case validateSale (newSale i now cid pt amount rq) of
                    Inl e \<Rightarrow> (d1, Inl e)
                  | Inr s \<Rightarrow>
                      if \<not> list_all (\<lambda>it. 1 \<le> it_quantity it) its then (d1, Inl ValidationError)
                      else
                        (let d2 = d1\<lparr>sales := sales d1 @ [s]\<rparr>
                         in if pt \<noteq> Credit then (d2, Inr s)
                            else
                              (case findCustomer d2 cid of
                                 None \<Rightarrow> (d2, Inl TypeError)
                               | Some c \<Rightarrow>
                                   (case saveCustomer
                                       (c\<lparr>paymentHistory := paymentHistory c @
                                            [\<lparr>ph_amount = amount, ph_method = None,
                                              ph_status = EPending, ph_saleId = Some i\<rparr>]\<rparr>) d2 of
                                      Inl e \<Rightarrow> (d2, Inl e)
                                    | Inr d3 \<Rightarrow> (d3, Inr s)))))))
      | _ \<Rightarrow> (d, Inl MissingRequiredFields))"

text \<open>The whole handler: on a throw other than ``Customer not found'' and ``Credit limit
  exceeded'' the catch block restores the stock of the request's items (when the request
  has items), and the response is the error.\<close>

definition createSale :: "oid \<Rightarrow> date \<Rightarrow> saleRequest \<Rightarrow> db \<Rightarrow> db \<times> (error + sale)" where
  "createSale i now rq d =
     (case createSale_try i now rq d of
        (d', Inr s) \<Rightarrow> (d', Inr s)
      | (d', Inl e) \<Rightarrow>
          if e = CustomerNotFound \<or> e = CreditLimitExceeded then (d', Inl e)
          else (case rq_items rq of
                  None \<Rightarrow> (d', Inl e)
                | Some its \<Rightarrow> (restoreStock its d', Inl e)))"

section \<open>Paths that no schema declares\<close>

text \<open>The payment routes read \<open>sale.paidAmount\<close>, \<open>sale.payments\<close> and
  \<open>sale.creditDetails.remainingAmount\<close>.  The Sale schema declares none of them, so each
  read gives \<open>undefined\<close>, whatever the document.  (\<open>customer.currentCredit\<close> is
  assigned by two routes and read by none.)\<close>

definition paidAmount :: "sale \<Rightarrow> jsval" where
  "paidAmount s = Undefined"

definition payments :: "sale \<Rightarrow> jsval" where
  "payments s = Undefined"


text \<open>\<open>x.push(v)\<close> on a value that is not an array: \<open>undefined\<close> and \<open>null\<close> have no
  properties and a number has no \<open>push\<close>, so the call throws a TypeError.\<close>

definition push :: "jsval \<Rightarrow> oid \<Rightarrow> error + unit" where
  "push x v = Inl TypeError"

text \<open>Addition, \<open>x || y\<close> and \<open>x >= t\<close> for a number \<open>t\<close>.\<close>

fun js_add :: "jsval \<Rightarrow> jsval \<Rightarrow> jsval" where
  "js_add (Num a) (Num b) = Num (a + b)"
| "js_add NaN y = NaN"
| "js_add Undefined y = NaN"
| "js_add x NaN = NaN"
| "js_add x Undefined = NaN"
| "js_add PosInfinity NegInfinity = NaN"
| "js_add NegInfinity PosInfinity = NaN"
| "js_add PosInfinity y = PosInfinity"
| "js_add NegInfinity y = NegInfinity"
| "js_add x PosInfinity = PosInfinity"
| "js_add x NegInfinity = NegInfinity"

definition js_or :: "jsval \<Rightarrow> jsval \<Rightarrow> jsval" where
  "js_or x y = (if x = Undefined \<or> x = NaN \<or> x = Num 0 then y else x)"

definition js_ge :: "jsval \<Rightarrow> number \<Rightarrow> bool" where
  "js_ge x t = (case x of Num a \<Rightarrow> t \<le> a | PosInfinity \<Rightarrow> True | _ \<Rightarrow> False)"

section \<open>Sessions\<close>

text \<open>The transactional routes begin with \<open>mongoose.startSession()\<close>, before their
  \<open>try\<close>.  The files of the sales and the customer routes import \<open>mongoose\<close>; the
  file of the payment routes imports express, the authentication middleware, the three
  models and the notification service, and not \<open>mongoose\<close>: there the name is unbound
  and evaluating it throws a ReferenceError, outside every \<open>try\<close> of the handler.  In
  the routes of the other two files the call succeeds; their models begin with the
  \<open>try\<close>.\<close>

datatype router = SalesRouter | CustomersRouter | PaymentsRouter

definition importsMongoose :: "router \<Rightarrow> bool" where
  "importsMongoose r = (r = SalesRouter \<or> r = CustomersRouter)"

definition startSession :: "router \<Rightarrow> error option" where
  "startSession r = (if importsMongoose r then None else Some ReferenceError)"

section \<open>Payment records (models/Payment.js)\<close>

text \<open>\<open>payment.save()\<close>: \<open>sale\<close> and \<open>customer\<close> are required; \<open>amount\<close> is
  required, must cast to a number (NaN does not) and has \<open>min: 0\<close>; \<open>method\<close> is one
  of the schema's five methods.\<close>

definition validPayment :: "payment \<Rightarrow> bool" where
  "validPayment p =
     (p_sale p \<noteq> None \<and> p_customer p \<noteq> None
      \<and> (case p_amount p of Num a \<Rightarrow> 0 \<le> a | PosInfinity \<Rightarrow> True | _ \<Rightarrow> False)
      \<and> p_method p \<noteq> MOther)"

definition savePayment :: "payment \<Rightarrow> db \<Rightarrow> error + db" where
  "savePayment p d =
     (if validPayment p then Inr (d\<lparr>paymentRecords := paymentRecords d @ [p]\<rparr>)
      else Inl ValidationError)"

text \<open>The id of the next payment record.\<close>

definition nextPaymentId :: "db \<Rightarrow> oid" where
  "nextPaymentId d = length (paymentRecords d)"

section \<open>Bulk payments (payment routes, POST /bulk)\<close>

text \<open>Inside a session, what a handler writes is visible to its later reads, and becomes
  the ledger when the transaction is committed; an aborted transaction leaves the ledger as
  it was.  The confirmation sent at the end only logs a line and is not modelled.\<close>

record paymentData =
  pd_customerId :: "oid option"
  pd_amount :: "number option"
  pd_date :: "date option"
  pd_method :: "pay_method option"

datatype bulkResult = Successful oid number "oid list" | Failed "oid option" error

text \<open>\<open>Sale.find({customer, status: 'pending', paymentType: 'credit'}).sort({createdAt: 1})\<close>:
  the customer's pending credit sales, oldest first; sales created at the same instant keep
  their storage order.\<close>

definition pendingSalesOf :: "db \<Rightarrow> oid \<Rightarrow> sale list" where
  "pendingSalesOf d cid =
     sort_key createdAt
       (filter (\<lambda>s. s_customer s = cid \<and> s_status s = Pending \<and> paymentType s = Credit) (sales d))"

text \<open>The allocation loop, statement by statement.  \<open>saleBalance\<close> is
  \<open>sale.totalAmount - sale.paidAmount\<close>, the payment for the sale is
  \<open>Math.min(remainingAmount, saleBalance)\<close>; the payment record is saved, its id pushed on
  \<open>sale.payments\<close>, the amount added to \<open>sale.paidAmount\<close> (which is not stored), the
  sale completed when that sum reaches the total, and the sale saved.  The result is the
  session state reached and either the error thrown or the amount left over with the list
  \<open>updatedSales\<close>.\<close>

fun allocate ::
  "oid \<Rightarrow> date \<Rightarrow> pay_method \<Rightarrow> jsval \<Rightarrow> sale list \<Rightarrow> db \<Rightarrow> db \<times> (error + jsval \<times> sale list)" where
  "allocate cid dt m remaining [] d = (d, Inr (remaining, []))"
| "allocate cid dt m remaining (s # ss) d =
     (if js_le remaining (Num 0) then (d, Inr (remaining, []))
      else
        (let saleBalance = js_sub (Num (totalAmount s)) (paidAmount s);
             paymentForSale = Math_min remaining saleBalance;
             p = \<lparr>p_id = nextPaymentId d, p_sale = Some (s_id s), p_customer = Some cid,
                  p_amount = paymentForSale, p_date = dt, p_method = m\<rparr>
         in case savePayment p d of
              Inl e \<Rightarrow> (d, Inl e)
            | Inr d1 \<Rightarrow>
                (case push (payments s) (p_id p) of
                   Inl e \<Rightarrow> (d1, Inl e)
                 | Inr u \<Rightarrow>
                     (let paid = js_add (paidAmount s) paymentForSale;
                          s2 = (if js_ge paid (totalAmount s) then s\<lparr>s_status := Completed\<rparr> else s)
                      in case saveSale s2 d1 of
                           Inl e \<Rightarrow> (d1, Inl e)
                         | Inr d2 \<Rightarrow>
                             (case allocate cid dt m (js_sub remaining paymentForSale) ss d2 of
                                (d3, Inl e) \<Rightarrow> (d3, Inl e)
                              | (d3, Inr (r, upd)) \<Rightarrow> (d3, Inr (r, s2 # upd)))))))"

text \<open>One element of the request array: the body of the inner try, whose catch records the
  failure and goes on; whatever the element wrote into the session before it threw stays
  in the session.\<close>

definition processBulkPayment :: "paymentData \<Rightarrow> db \<Rightarrow> db \<times> bulkResult" where
  "processBulkPayment pd d =
     (case (pd_customerId pd, pd_amount pd, pd_date pd, pd_method pd) of
        (Some cid, Some amount, Some dt, Some m) \<Rightarrow>
          if amount = 0 then (d, Failed (Some cid) MissingPaymentFields)
          else
            (case findCustomer d cid of
               None \<Rightarrow> (d, Failed (Some cid) CustomerNotFound)
             | Some c \<Rightarrow>
                 (let pendingSales = pendingSalesOf d cid
                  in if pendingSales = [] then (d, Failed (Some cid) NoPendingSales)
                     else
                       (case allocate cid dt m (Num amount) pendingSales d of
                          (d1, Inl e) \<Rightarrow> (d1, Failed (Some cid) e)
                        | (d1, Inr (r, updatedSales)) \<Rightarrow>
                            (case saveCustomer (c\<lparr>creditBalance := creditBalance c - amount\<rparr>) d1 of
                               Inl e \<Rightarrow> (d1, Failed (Some cid) e)
                             | Inr d2 \<Rightarrow> (d2, Successful cid amount (map s_id updatedSales))))))
      | _ \<Rightarrow> (d, Failed (pd_customerId pd) MissingPaymentFields))"

fun processBulkList :: "paymentData list \<Rightarrow> db \<Rightarrow> db \<times> bulkResult list" where
  "processBulkList [] d = (d, [])"
| "processBulkList (pd # pds) d =
     (case processBulkPayment pd d of
        (d1, r) \<Rightarrow> (case processBulkList pds d1 of (d2, rs) \<Rightarrow> (d2, r # rs)))"

text \<open>The \<open>try\<close> of the handler with its \<open>catch\<close>: a body that is not an array aborts
  the transaction; otherwise the transaction is committed after the loop, with the session
  as the loop left it.\<close>

definition bulkPayments_try :: "paymentData list option \<Rightarrow> db \<Rightarrow> db \<times> (error + bulkResult list)" where
  "bulkPayments_try body d =
     (case body of
        None \<Rightarrow> (d, Inl InvalidPaymentDataFormat)
      | Some pds \<Rightarrow> (case processBulkList pds d of (d', rs) \<Rightarrow> (d', Inr rs)))"

text \<open>The handler: the session is started first; a throw there leaves the handler before
  the \<open>try\<close>, with nothing read or written.\<close>

definition bulkPayments :: "paymentData list option \<Rightarrow> db \<Rightarrow> db \<times> (error + bulkResult list)" where
  "bulkPayments body d =
     (case startSession PaymentsRouter of
        Some e \<Rightarrow> (d, Inl e)
      | None \<Rightarrow> bulkPayments_try body d)"

section \<open>Single payment (payment routes, POST /)\<close>

record singlePaymentData =
  sp_customerId :: "oid option"
  sp_saleId :: "oid option"
  sp_amount :: "number option"
  sp_date :: "date option"
  sp_method :: "pay_method option"

text \<open>The \<open>try\<close> block.  The remaining balance is \<open>sale.totalAmount - sale.paidAmount\<close>,
  and the guard is \<open>amount > remainingBalance\<close>.\<close>

definition singlePayment_try :: "singlePaymentData \<Rightarrow> db \<Rightarrow> error + db \<times> payment \<times> sale" where
  "singlePayment_try sp d =
     (case (sp_customerId sp, sp_saleId sp, sp_amount sp, sp_date sp, sp_method sp) of
        (Some cid, Some sid, Some amount, Some dt, Some m) \<Rightarrow>
          if amount = 0 then Inl MissingPaymentFields
          else
            (case findCustomer d cid of
               None \<Rightarrow> Inl CustomerNotFound
             | Some c \<Rightarrow>
                 (case findSale d sid of
                    None \<Rightarrow> Inl SaleNotFound
                  | Some s \<Rightarrow>
                      if s_status s = Completed then Inl SaleAlreadyPaidInFull
                      else if js_gt (Num amount) (js_sub (Num (totalAmount s)) (paidAmount s))
                        then Inl AmountExceedsRemainingBalance
                      else
                        (let p = \<lparr>p_id = nextPaymentId d, p_sale = Some sid, p_customer = Some cid,
                                  p_amount = Num amount, p_date = dt, p_method = m\<rparr>
                         in case savePayment p d of
                              Inl e \<Rightarrow> Inl e
                            | Inr d1 \<Rightarrow>
                                (case push (payments s) (p_id p) of
                                   Inl e \<Rightarrow> Inl e
                                 | Inr u \<Rightarrow>
                                     (let paid = js_add (paidAmount s) (Num amount);
                                          s2 = (if js_ge paid (totalAmount s)
                                                then s\<lparr>s_status := Completed\<rparr> else s)
                                      in case saveSale s2 d1 of
                                           Inl e \<Rightarrow> Inl e
                                         | Inr d2 \<Rightarrow>
                                             (case saveCustomer
                                                 (c\<lparr>creditBalance := creditBalance c - amount\<rparr>) d2 of
                                                Inl e \<Rightarrow> Inl e
                                              | Inr d3 \<Rightarrow> Inr (d3, p, s2)))))))
      | _ \<Rightarrow> Inl MissingPaymentFields)"

text \<open>The \<open>try\<close> with its \<open>catch\<close>: commit on success, abort (the state before the
  request) on any throw.\<close>

definition singlePayment_session :: "singlePaymentData \<Rightarrow> db \<Rightarrow> db \<times> (error + payment \<times> sale)" where
  "singlePayment_session sp d =
     (case singlePayment_try sp d of
        Inl e \<Rightarrow> (d, Inl e)
      | Inr (d', p, s) \<Rightarrow> (d', Inr (p, s)))"


section \<open>Manual status override (routes/sales.js, PATCH /:id/status)\<close>

text \<open>\<open>Customer.findByIdAndUpdate(id, {$inc: {creditBalance: delta}})\<close>: an update in
  place; neither the schema validators nor the pre-save hook run.\<close>

definition incCreditBalance :: "oid \<Rightarrow> number \<Rightarrow> db \<Rightarrow> db" where
  "incCreditBalance cid delta d =
     d\<lparr>customers :=
         map (\<lambda>c. if c_id c = cid then c\<lparr>creditBalance := creditBalance c + delta\<rparr> else c)
           (customers d)\<rparr>"

definition updateSaleStatus_try :: "oid \<Rightarrow> sale_status \<Rightarrow> db \<Rightarrow> error + db \<times> sale" where
  "updateSaleStatus_try i st d =
     (case findSale d i of
        None \<Rightarrow> Inl SaleNotFound
      | Some s \<Rightarrow>
          if s_status s = st then Inl SaleAlreadyInThisStatus
          else if st = Completed \<and> paymentType s = Credit \<and> findCustomer d (s_customer s) = None
            then Inl TypeError
          else
            (let d1 = (if st = Completed \<and> paymentType s = Credit
                       then incCreditBalance (s_customer s) (- totalAmount s) d else d);
                 s1 = s\<lparr>s_status := st\<rparr>
             in case saveSale s1 d1 of
                  Inl e \<Rightarrow> Inl e
                | Inr d2 \<Rightarrow> Inr (d2, s1)))"

definition updateSaleStatus :: "oid \<Rightarrow> sale_status \<Rightarrow> db \<Rightarrow> db \<times> (error + sale)" where
  "updateSaleStatus i st d =
     (case updateSaleStatus_try i st d of
        Inl e \<Rightarrow> (d, Inl e)
      | Inr (d', s) \<Rightarrow> (d', Inr s))"

section \<open>Credit payment on a sale (routes/sales.js, POST /:id/credit-payment)\<close>




section \<open>Payment details of a sale (routes/sales.js)\<close>




section \<open>Customer routes (routes/customers.js)\<close>



text \<open>\<open>POST /:id/payments\<close>: a payment against the account, inside a transaction.  The
  total paid for the sale is summed over the history after the new entry has been pushed,
  and the amount is added once more.\<close>

definition customerPayment_try ::
  "oid \<Rightarrow> number \<Rightarrow> pay_method option \<Rightarrow> oid option \<Rightarrow> db \<Rightarrow> error + db \<times> customer" where
  "customerPayment_try i amount method saleId d =
     (case findCustomer d i of
        None \<Rightarrow> Inl CustomerNotFound
      | Some c \<Rightarrow>
          if amount \<le> 0 then Inl AmountMustBePositive
          else if amount > creditBalance c then Inl AmountExceedsCreditBalance
          else
            (let c1 = c\<lparr>creditBalance := creditBalance c - amount,
                         paymentHistory := paymentHistory c @
                           [\<lparr>ph_amount = amount, ph_method = method, ph_status = ECompleted,
                             ph_saleId = saleId\<rparr>]\<rparr>;
                 r1 =
                   (case saleId of
                      None \<Rightarrow> Inr d
                    | Some sid \<Rightarrow>
                        (case findSale d sid of
                           None \<Rightarrow> Inr d
                         | Some s \<Rightarrow>
                             (let totalPaid =
                                    sum_list (map ph_amount
                                      (filter (\<lambda>e. ph_saleId e = Some sid \<and> ph_status e = ECompleted)
                                         (paymentHistory c1))) + amount
                              in if totalPaid \<ge> totalAmount s
                                 then saveSale (s\<lparr>s_status := Completed\<rparr>) d
                                 else Inr d)))
             in case r1 of
                  Inl e \<Rightarrow> Inl e
                | Inr d1 \<Rightarrow>
                    (case saveCustomer c1 d1 of
                       Inl e \<Rightarrow> Inl e
                     | Inr d2 \<Rightarrow> Inr (d2, c1))))"

definition customerPayment ::
  "oid \<Rightarrow> number \<Rightarrow> pay_method option \<Rightarrow> oid option \<Rightarrow> db \<Rightarrow> db \<times> (error + customer)" where
  "customerPayment i amount method saleId d =
     (case customerPayment_try i amount method saleId d of
        Inl e \<Rightarrow> (d, Inl e)
      | Inr (d', c) \<Rightarrow> (d', Inr c))"

section \<open>Razorpay payment verification (routes/razorpay.js, POST /verify-payment)\<close>

text \<open>\<open>vr_verified\<close> is the outcome of the signature check of the gateway service:
  \<open>None\<close> when the service throws (it is not configured), otherwise whether the signature
  matches.\<close>

record verifyRequest =
  vr_verified :: "bool option"
  vr_saleId :: "oid option"
  vr_customerId :: "oid option"
  vr_amount :: number

text \<open>The sale update of the handler: skipped without \<open>saleId\<close> or when the sale is not
  found.  For a sale that is found the id of the payment is pushed on \<open>sale.payments\<close>,
  \<open>(sale.paidAmount || 0) + amount\<close> is assigned to \<open>sale.paidAmount\<close> (which is not
  stored), the sale is completed when that sum reaches the total, and saved.\<close>

definition verifyPayment_sale :: "verifyRequest \<Rightarrow> oid \<Rightarrow> db \<Rightarrow> error + db" where
  "verifyPayment_sale vr pid d =
     (case vr_saleId vr of
        None \<Rightarrow> Inr d
      | Some sid \<Rightarrow>
          (case findSale d sid of
             None \<Rightarrow> Inr d
           | Some s \<Rightarrow>
               (case push (payments s) pid of
                  Inl e \<Rightarrow> Inl e
                | Inr u \<Rightarrow>
                    (let paid = js_add (js_or (paidAmount s) (Num 0)) (Num (vr_amount vr));
                         s2 = (if js_ge paid (totalAmount s) then s\<lparr>s_status := Completed\<rparr> else s)
                     in saveSale s2 d))))"

text \<open>The handler.  It opens no session: every save is final when it returns, and a throw
  leaves the earlier saves in the ledger.  After the customer has been saved the handler
  evaluates \<open>sale\<close>, a name declared in the block of the sale update and not in scope
  here, which throws a ReferenceError; the response is then the error, with the balance
  already written.\<close>

definition verifyPayment :: "verifyRequest \<Rightarrow> date \<Rightarrow> db \<Rightarrow> db \<times> (error + payment)" where
  "verifyPayment vr now d =
     (case vr_verified vr of
        None \<Rightarrow> (d, Inl RazorpayNotInitialized)
      | Some False \<Rightarrow> (d, Inl InvalidSignature)
      | Some True \<Rightarrow>
          (let p = \<lparr>p_id = nextPaymentId d, p_sale = vr_saleId vr, p_customer = vr_customerId vr,
                    p_amount = Num (vr_amount vr), p_date = now, p_method = MRazorpay\<rparr>
           in case savePayment p d of
                Inl e \<Rightarrow> (d, Inl e)
              | Inr d1 \<Rightarrow>
                  (case verifyPayment_sale vr (p_id p) d1 of
                     Inl e \<Rightarrow> (d1, Inl e)
                   | Inr d2 \<Rightarrow>
                       (case vr_customerId vr of
                          None \<Rightarrow> (d2, Inr p)
                        | Some cid \<Rightarrow>
                            (case findCustomer d2 cid of
                               None \<Rightarrow> (d2, Inr p)
                             | Some c \<Rightarrow>
                                 (case saveCustomer
                                     (c\<lparr>creditBalance := max 0 (creditBalance c - vr_amount vr)\<rparr>) d2 of
                                    Inl e \<Rightarrow> (d2, Inl e)
                                  | Inr d3 \<Rightarrow> (d3, Inl ReferenceError)))))))"

section \<open>The daily sweep (jobs/paymentReminders.js)\<close>

definition REMINDER_INTERVALS_FIRST :: int where "REMINDER_INTERVALS_FIRST = 7"
definition REMINDER_INTERVALS_SECOND :: int where "REMINDER_INTERVALS_SECOND = 3"
definition REMINDER_INTERVALS_THIRD :: int where "REMINDER_INTERVALS_THIRD = 1"

definition OVERDUE_INTERVALS_FIRST :: int where "OVERDUE_INTERVALS_FIRST = 1"
definition OVERDUE_INTERVALS_SECOND :: int where "OVERDUE_INTERVALS_SECOND = 7"
definition OVERDUE_INTERVALS_THIRD :: int where "OVERDUE_INTERVALS_THIRD = 30"

definition CREDIT_WARNING_THRESHOLDS :: "number list" where
  "CREDIT_WARNING_THRESHOLDS = [70, 85, 95]"

text \<open>\<open>differenceInDays\<close> of the date-fns library: the number of full days between two
  instants, truncated towards zero (a day is 86400000 ms; daylight-saving shifts of the
  local clock are not modelled).\<close>

definition differenceInDays :: "date \<Rightarrow> date \<Rightarrow> int" where
  "differenceInDays later earlier =
     (let diff = later - earlier
      in if 0 \<le> diff then diff div 86400000 else - ((- diff) div 86400000))"

text \<open>Division of two numbers, the multiplication by 100 and \<open>Math.round\<close>.\<close>

definition js_div :: "number \<Rightarrow> number \<Rightarrow> jsval" where
  "js_div a b =
     (if b \<noteq> 0 then Num (a / b)
      else if 0 < a then PosInfinity
      else if a < 0 then NegInfinity
      else NaN)"

definition js_times100 :: "jsval \<Rightarrow> jsval" where
  "js_times100 x = (case x of Num a \<Rightarrow> Num (a * 100) | Undefined \<Rightarrow> NaN | y \<Rightarrow> y)"

definition Math_round :: "jsval \<Rightarrow> jsval" where
  "Math_round x = (case x of Num a \<Rightarrow> Num (of_int \<lfloor>a + 1 / 2\<rfloor>) | Undefined \<Rightarrow> NaN | y \<Rightarrow> y)"

datatype intent =
    PaymentReminder oid oid int
  | OverdueNotification oid oid int
  | CreditLimitWarning oid number jsval

text \<open>The decision of the loop body of \<open>processUpcomingPayments\<close> for one sale: the day
  offset of the reminder to send, if any.\<close>

definition upcomingReminder :: "date \<Rightarrow> sale \<Rightarrow> int option" where
  "upcomingReminder now s =
     (case dueDate s of
        None \<Rightarrow> None
      | Some due \<Rightarrow>
          (let daysUntilDue = differenceInDays due now
           in if daysUntilDue = REMINDER_INTERVALS_FIRST \<or> daysUntilDue = REMINDER_INTERVALS_SECOND
                 \<or> daysUntilDue = REMINDER_INTERVALS_THIRD
              then Some daysUntilDue else None))"

definition overdueNotice :: "date \<Rightarrow> sale \<Rightarrow> int option" where
  "overdueNotice now s =
     (case dueDate s of
        None \<Rightarrow> None
      | Some due \<Rightarrow>
          (let daysOverdue = differenceInDays now due
           in if daysOverdue = OVERDUE_INTERVALS_FIRST \<or> daysOverdue = OVERDUE_INTERVALS_SECOND
                 \<or> daysOverdue = OVERDUE_INTERVALS_THIRD
              then Some daysOverdue else None))"

text \<open>The loop over the sales found.  The notification service reads the name of the
  populated customer; when the customer document does not exist the read throws, and the
  throw ends the loop (it is caught and logged by \<open>processReminders\<close>).\<close>

fun notifySales ::
  "db \<Rightarrow> (sale \<Rightarrow> int option) \<Rightarrow> (oid \<Rightarrow> oid \<Rightarrow> int \<Rightarrow> intent) \<Rightarrow> sale list \<Rightarrow> intent list \<times> error option" where
  "notifySales d decide mk [] = ([], None)"
| "notifySales d decide mk (s # ss) =
     (case decide s of
        None \<Rightarrow> notifySales d decide mk ss
      | Some k \<Rightarrow>
          (case findCustomer d (s_customer s) of
             None \<Rightarrow> ([], Some TypeError)
           | Some c \<Rightarrow>
               (case notifySales d decide mk ss of
                  (ns, e) \<Rightarrow> (mk (s_customer s) (s_id s) k # ns, e))))"

definition processUpcomingPayments :: "date \<Rightarrow> db \<Rightarrow> intent list \<times> error option" where
  "processUpcomingPayments now d =
     notifySales d (upcomingReminder now) PaymentReminder
       (filter (\<lambda>s. dueDate s \<noteq> None \<and> s_status s = Pending \<and> paymentType s = Credit) (sales d))"

definition processOverduePayments :: "date \<Rightarrow> db \<Rightarrow> intent list \<times> error option" where
  "processOverduePayments now d =
     notifySales d (overdueNotice now) OverdueNotification
       (filter (\<lambda>s. (case dueDate s of None \<Rightarrow> False | Some due \<Rightarrow> due < now)
                    \<and> s_status s = Pending \<and> paymentType s = Credit) (sales d))"

definition percentageUsed :: "customer \<Rightarrow> jsval" where
  "percentageUsed c = js_times100 (js_div (creditBalance c) (creditLimit c))"

text \<open>The inner loop of \<open>processCreditLimitWarnings\<close>: the thresholds are tried in the
  order of the list, and the loop leaves at the first one that is met.\<close>

fun firstThresholdMet :: "jsval \<Rightarrow> number list \<Rightarrow> number option" where
  "firstThresholdMet pct [] = None"
| "firstThresholdMet pct (threshold # ts) =
     (if js_ge pct threshold then Some threshold else firstThresholdMet pct ts)"

definition creditLimitWarning :: "customer \<Rightarrow> intent list" where
  "creditLimitWarning c =
     (let remainingCredit = creditLimit c - creditBalance c
      in case firstThresholdMet (percentageUsed c) CREDIT_WARNING_THRESHOLDS of
           None \<Rightarrow> []
         | Some threshold \<Rightarrow>
             [CreditLimitWarning (c_id c) remainingCredit (Math_round (percentageUsed c))])"

definition processCreditLimitWarnings :: "db \<Rightarrow> intent list" where
  "processCreditLimitWarnings d =
     concat (map creditLimitWarning
       (filter (\<lambda>c. 0 < creditBalance c \<and> c_status c = Active) (customers d)))"

definition processReminders :: "date \<Rightarrow> db \<Rightarrow> intent list" where
  "processReminders now d =
     fst (processUpcomingPayments now d) @ fst (processOverduePayments now d)
       @ processCreditLimitWarnings d"

section \<open>Operations on the ledger\<close>




section \<open>Quantities of the specification\<close>

text \<open>\<open>daysUntilDue = dueDate - today\<close> in whole days.  A sale without due date has no
  offset; 0 stands for it and is in no trigger set.\<close>

definition daysUntilDue :: "date \<Rightarrow> sale \<Rightarrow> int" where
  "daysUntilDue now s = (case dueDate s of None \<Rightarrow> 0 | Some due \<Rightarrow> differenceInDays due now)"

definition sweepCandidate :: "sale \<Rightarrow> bool" where
  "sweepCandidate s = (dueDate s \<noteq> None \<and> s_status s = Pending \<and> paymentType s = Credit)"










text \<open>The waterfall of the specification: walk the remaining balances in order, apply
  \<open>min remaining balance\<close> to each, and stop when nothing remains or the list ends.\<close>

fun waterfall :: "number \<Rightarrow> number list \<Rightarrow> number list" where
  "waterfall remaining [] = []"
| "waterfall remaining (b # bs) =
     (if remaining = 0 then [] else min remaining b # waterfall (remaining - min remaining b) bs)"

text \<open>The sum of the remaining balances of the customer's pending obligations.\<close>

definition totalOutstanding :: "db \<Rightarrow> oid \<Rightarrow> number" where
  "totalOutstanding d cid = sum_list (map remainingBalance (pendingSalesOf d cid))"

section \<open>Example ledgers\<close>

text \<open>An active account with a limit and a balance; a pending credit sale with its total, the
  amount paid so far, its creation time and due date; a cash payment for the bulk route.  The
  ledgers below are built from them.\<close>

definition account :: "oid \<Rightarrow> number \<Rightarrow> number \<Rightarrow> customer" where
  "account i newLimit bal = \<lparr>c_id = i, creditLimit = newLimit, creditBalance = bal,
     paymentHistory = [], c_status = Active\<rparr>"

definition creditSale :: "oid \<Rightarrow> oid \<Rightarrow> number \<Rightarrow> number \<Rightarrow> date \<Rightarrow> date option \<Rightarrow> sale" where
  "creditSale i cid amount paid created due =
     \<lparr>s_id = i, s_customer = cid, totalAmount = amount, paymentType = Credit, s_status = Pending,
      createdAt = created, dueDate = due, interestRate = 0, cd_paidAmount = paid,
      paymentDetails_method = None, paymentDetails_status = DPending\<rparr>"

definition cashEntry :: "oid \<Rightarrow> number \<Rightarrow> paymentData" where
  "cashEntry cid amount =
     \<lparr>pd_customerId = Some cid, pd_amount = Some amount, pd_date = Some 0, pd_method = Some MCash\<rparr>"

definition blockedCustomer :: customer where
  "blockedCustomer = \<lparr>c_id = 1, creditLimit = 1000, creditBalance = 0,
     paymentHistory = [], c_status = Blocked\<rparr>"

definition blockedDb :: db where
  "blockedDb = \<lparr>customers = [blockedCustomer], sales = [], paymentRecords = [],
     products = [\<lparr>pr_id = 1, quantity = 50\<rparr>]\<rparr>"

definition creditRequest :: saleRequest where
  "creditRequest = \<lparr>rq_customerId = Some 1, rq_items = Some [\<lparr>it_product = 1, it_quantity = 2\<rparr>],
     rq_paymentType = Some Credit, rq_totalAmount = Some 100, rq_dueDate = Some 0,
     rq_interestRate = 0\<rparr>"

definition sweepDb :: db where
  "sweepDb = \<lparr>customers = [account 1 1000 400],
     sales = [creditSale 1 1 100 0 0 (Some (7 * 86400000)),
              creditSale 2 1 100 0 0 (Some (5 * 86400000)),
              creditSale 3 1 100 0 0 (Some (- 86400000 - 5)),
              creditSale 4 1 100 0 0 (Some (- 2 * 86400000))],
     paymentRecords = [], products = []\<rparr>"


text \<open>Scenario C of the specification: two pending obligations of one account, 200 (the
  older one, stored second) and 500.\<close>

definition scenarioDb :: db where
  "scenarioDb = \<lparr>customers = [account 1 1000 700],
     sales = [creditSale 2 1 500 0 20 None, creditSale 1 1 200 0 10 None],
     paymentRecords = [], products = []\<rparr>"

text \<open>Scenario E: one pending obligation of 100 and a cancelled one; the account owes 500.\<close>

definition excessDb :: db where
  "excessDb = \<lparr>customers = [account 1 1000 500],
     sales = [creditSale 1 1 100 0 0 None, (creditSale 2 1 400 0 5 None)\<lparr>s_status := Cancelled\<rparr>],
     paymentRecords = [], products = []\<rparr>"

text \<open>An account that owes 300 on a sale of 500, and two verified gateway payments for that
  sale: one of 50 and one of 450.\<close>

definition overpaidDb :: db where
  "overpaidDb = \<lparr>customers = [account 1 1000 300],
     sales = [creditSale 1 1 500 0 0 None], paymentRecords = [], products = []\<rparr>"

definition gatewayRequest :: verifyRequest where
  "gatewayRequest = \<lparr>vr_verified = Some True, vr_saleId = Some 1, vr_customerId = Some 1,
     vr_amount = 50\<rparr>"

definition overpaidRequest :: verifyRequest where
  "overpaidRequest = \<lparr>vr_verified = Some True, vr_saleId = Some 1, vr_customerId = Some 1,
     vr_amount = 450\<rparr>"

text \<open>The gateway payment of 450 with the id of a sale that does not exist.\<close>

definition strayRequest :: verifyRequest where
  "strayRequest = \<lparr>vr_verified = Some True, vr_saleId = Some 9, vr_customerId = Some 1,
     vr_amount = 450\<rparr>"

definition settledDb :: db where
  "settledDb = \<lparr>customers = [account 1 1000 0], sales = [creditSale 1 1 100 0 0 None],
     paymentRecords = [], products = []\<rparr>"

definition partlyPaidDb :: db where
  "partlyPaidDb = \<lparr>customers = [account 1 1000 60], sales = [creditSale 1 1 100 40 0 None],
     paymentRecords = [], products = []\<rparr>"


definition cash60 :: singlePaymentData where
  "cash60 = \<lparr>sp_customerId = Some 1, sp_saleId = Some 1, sp_amount = Some 60, sp_date = Some 0,
     sp_method = Some MCash\<rparr>"

section \<open>The daily sweep: day offsets\<close>

lemma differenceInDays_swap: "differenceInDays a b = - differenceInDays b a"
  unfolding differenceInDays_def Let_def
  by (cases "a - b = 0") auto

lemma differenceInDays_pos: "1 \<le> differenceInDays a b \<Longrightarrow> b < a"
  unfolding differenceInDays_def Let_def
  by (auto split: if_splits)

lemma notifySales_present:
  assumes "\<forall>s\<in>set ss. findCustomer d (s_customer s) \<noteq> None"
  shows "notifySales d decide mk ss =
           (map (\<lambda>s. mk (s_customer s) (s_id s) (the (decide s))) (filter (\<lambda>s. decide s \<noteq> None) ss), None)"
  using assms by (induction ss) (auto split: option.splits)

lemma upcomingReminder_iff:
  "upcomingReminder now s \<noteq> None \<longleftrightarrow> dueDate s \<noteq> None \<and> daysUntilDue now s \<in> {7, 3, 1}"
  by (auto simp: upcomingReminder_def daysUntilDue_def Let_def REMINDER_INTERVALS_FIRST_def
      REMINDER_INTERVALS_SECOND_def REMINDER_INTERVALS_THIRD_def split: option.splits)

lemma upcomingReminder_val:
  "upcomingReminder now s \<noteq> None \<Longrightarrow> the (upcomingReminder now s) = daysUntilDue now s"
  by (auto simp: upcomingReminder_def daysUntilDue_def Let_def split: option.splits if_splits)

lemma overdueNotice_iff:
  "overdueNotice now s \<noteq> None \<longleftrightarrow> dueDate s \<noteq> None \<and> daysUntilDue now s \<in> {-1, -7, -30}"
  by (auto simp: overdueNotice_def daysUntilDue_def Let_def OVERDUE_INTERVALS_FIRST_def
      OVERDUE_INTERVALS_SECOND_def OVERDUE_INTERVALS_THIRD_def differenceInDays_swap [of now]
      split: option.splits)

lemma overdueNotice_val:
  "overdueNotice now s \<noteq> None \<Longrightarrow> the (overdueNotice now s) = - daysUntilDue now s"
  by (auto simp: overdueNotice_def daysUntilDue_def Let_def differenceInDays_swap [of now]
      split: option.splits if_splits)

lemma overdue_is_past:
  "overdueNotice now s \<noteq> None \<Longrightarrow> (case dueDate s of None \<Rightarrow> False | Some due \<Rightarrow> due < now)"
  by (auto simp: overdueNotice_def Let_def OVERDUE_INTERVALS_FIRST_def
      OVERDUE_INTERVALS_SECOND_def OVERDUE_INTERVALS_THIRD_def
      split: option.splits if_splits intro!: differenceInDays_pos)

lemma map_filter_cong2:
  assumes "\<And>x. x \<in> set xs \<Longrightarrow> P x = Q x" "\<And>x. x \<in> set xs \<Longrightarrow> Q x \<Longrightarrow> f x = g x"
  shows "map f (filter P xs) = map g (filter Q xs)"
  using assms by (induction xs) auto

text \<open>
  Claim C7.  In a ledger where the customer of every sale exists, the sweep emits an
  upcoming reminder for exactly the pending credit sales with a due date whose
  \<open>daysUntilDue\<close> is 7, 3 or 1, and an overdue notice for exactly those whose
  \<open>daysUntilDue\<close> is -1, -7 or -30 (1, 7 or 30 days past due): one intent for each such
  sale, carrying the day offset, and none for any other offset.
\<close>

theorem sweep_reminders_exact_offsets:
  assumes "\<forall>s\<in>set (sales d). findCustomer d (s_customer s) \<noteq> None"
  shows "fst (processUpcomingPayments now d) =
           map (\<lambda>s. PaymentReminder (s_customer s) (s_id s) (daysUntilDue now s))
             (filter (\<lambda>s. sweepCandidate s \<and> daysUntilDue now s \<in> {7, 3, 1}) (sales d))
       \<and> fst (processOverduePayments now d) =
           map (\<lambda>s. OverdueNotification (s_customer s) (s_id s) (- daysUntilDue now s))
             (filter (\<lambda>s. sweepCandidate s \<and> daysUntilDue now s \<in> {-1, -7, -30}) (sales d))"
proof
  have up: "notifySales d (upcomingReminder now) PaymentReminder
              (filter (\<lambda>s. dueDate s \<noteq> None \<and> s_status s = Pending \<and> paymentType s = Credit) (sales d))
            = (map (\<lambda>s. PaymentReminder (s_customer s) (s_id s) (the (upcomingReminder now s)))
                 (filter (\<lambda>s. upcomingReminder now s \<noteq> None)
                   (filter (\<lambda>s. dueDate s \<noteq> None \<and> s_status s = Pending \<and> paymentType s = Credit) (sales d))), None)"
    using assms by (intro notifySales_present) auto
  show "fst (processUpcomingPayments now d) =
           map (\<lambda>s. PaymentReminder (s_customer s) (s_id s) (daysUntilDue now s))
             (filter (\<lambda>s. sweepCandidate s \<and> daysUntilDue now s \<in> {7, 3, 1}) (sales d))"
    unfolding processUpcomingPayments_def up fst_conv filter_filter
  proof (rule map_filter_cong2)
    fix s assume "s \<in> set (sales d)"
    show "((dueDate s \<noteq> None \<and> s_status s = Pending \<and> paymentType s = Credit)
             \<and> upcomingReminder now s \<noteq> None)
          = (sweepCandidate s \<and> daysUntilDue now s \<in> {7, 3, 1})"
      using upcomingReminder_iff [of now s]
      by (auto simp: sweepCandidate_def simp del: insert_iff)
  next
    fix s assume "sweepCandidate s \<and> daysUntilDue now s \<in> {7, 3, 1}"
    then have "upcomingReminder now s \<noteq> None"
      using upcomingReminder_iff [of now s] by (simp add: sweepCandidate_def del: insert_iff)
    then show "PaymentReminder (s_customer s) (s_id s) (the (upcomingReminder now s))
        = PaymentReminder (s_customer s) (s_id s) (daysUntilDue now s)"
      by (simp add: upcomingReminder_val)
  qed
  have ov: "notifySales d (overdueNotice now) OverdueNotification
              (filter (\<lambda>s. (case dueDate s of None \<Rightarrow> False | Some due \<Rightarrow> due < now)
                    \<and> s_status s = Pending \<and> paymentType s = Credit) (sales d))
            = (map (\<lambda>s. OverdueNotification (s_customer s) (s_id s) (the (overdueNotice now s)))
                 (filter (\<lambda>s. overdueNotice now s \<noteq> None)
                   (filter (\<lambda>s. (case dueDate s of None \<Rightarrow> False | Some due \<Rightarrow> due < now)
                    \<and> s_status s = Pending \<and> paymentType s = Credit) (sales d))), None)"
    using assms by (intro notifySales_present) auto
  show "fst (processOverduePayments now d) =
           map (\<lambda>s. OverdueNotification (s_customer s) (s_id s) (- daysUntilDue now s))
             (filter (\<lambda>s. sweepCandidate s \<and> daysUntilDue now s \<in> {-1, -7, -30}) (sales d))"
    unfolding processOverduePayments_def ov fst_conv filter_filter
  proof (rule map_filter_cong2)
    fix s assume "s \<in> set (sales d)"
    show "(((case dueDate s of None \<Rightarrow> False | Some due \<Rightarrow> due < now)
                    \<and> s_status s = Pending \<and> paymentType s = Credit) \<and> overdueNotice now s \<noteq> None)
          = (sweepCandidate s \<and> daysUntilDue now s \<in> {-1, -7, -30})"
    proof -
      have 1: "overdueNotice now s \<noteq> None \<longleftrightarrow> dueDate s \<noteq> None \<and> daysUntilDue now s \<in> {-1, -7, -30}"
        by (rule overdueNotice_iff)
      have 2: "overdueNotice now s \<noteq> None \<Longrightarrow> (case dueDate s of None \<Rightarrow> False | Some due \<Rightarrow> due < now)"
        by (rule overdue_is_past)
      have 3: "(case dueDate s of None \<Rightarrow> False | Some due \<Rightarrow> due < now) \<Longrightarrow> dueDate s \<noteq> None"
        by (cases "dueDate s") simp_all
      show ?thesis
        unfolding sweepCandidate_def using 1 2 3 by metis
    qed
  next
    fix s assume "sweepCandidate s \<and> daysUntilDue now s \<in> {-1, -7, -30}"
    then have "overdueNotice now s \<noteq> None"
      using overdueNotice_iff [of now s] by (simp add: sweepCandidate_def del: insert_iff)
    then show "OverdueNotification (s_customer s) (s_id s) (the (overdueNotice now s))
        = OverdueNotification (s_customer s) (s_id s) (- daysUntilDue now s)"
      by (simp add: overdueNotice_val)
  qed
qed


section \<open>Credit purchases of customers that are not active\<close>

text \<open>
  Claim C9.  For a customer whose status is not active, \<open>canMakeCreditPurchase\<close> is false
  for every amount, and a credit sale request for that customer (with its required fields
  present) is answered with ``Credit limit exceeded'', the ledger unchanged, whatever the
  balance and the limit are.
\<close>

theorem inactive_customer_credit_sale_rejected:
  assumes "c_status c \<noteq> Active"
  shows "\<not> canMakeCreditPurchase c amount \<and>
     (rq_customerId rq = Some cid \<and> rq_items rq = Some its \<and> rq_paymentType rq = Some Credit
        \<and> rq_totalAmount rq = Some amount \<and> amount \<noteq> 0 \<and> findCustomer d cid = Some c
      \<longrightarrow> createSale i now rq d = (d, Inl CreditLimitExceeded))"
  using assms
  by (auto simp: canMakeCreditPurchase_def createSale_def createSale_try_def creditCheck_def)

theorem inactive_customer_credit_sale_rejected_witness:
  "c_status blockedCustomer \<noteq> Active
   \<and> creditBalance blockedCustomer + 100 \<le> creditLimit blockedCustomer
   \<and> \<not> canMakeCreditPurchase blockedCustomer 100
   \<and> createSale 7 0 creditRequest blockedDb = (blockedDb, Inl CreditLimitExceeded)"
  using inactive_customer_credit_sale_rejected [of blockedCustomer 100 creditRequest 1 "[\<lparr>it_product = 1, it_quantity = 2\<rparr>]" blockedDb 7 0]
  by (simp add: blockedCustomer_def blockedDb_def creditRequest_def findCustomer_def)

theorem sweep_reminders_exact_offsets_witness:
  "fst (processUpcomingPayments 0 sweepDb) = [PaymentReminder 1 1 7]
   \<and> fst (processOverduePayments 0 sweepDb) = [OverdueNotification 1 3 1]"
  using sweep_reminders_exact_offsets [of sweepDb 0]
  by (simp add: sweepDb_def account_def creditSale_def findCustomer_def sweepCandidate_def
      daysUntilDue_def differenceInDays_def)

section \<open>Credit-limit warnings\<close>










section \<open>The payment routes never book a payment on a sale\<close>

lemma js_sub_Undefined [simp]: "js_sub x Undefined = NaN"
  by (cases x) simp_all

lemma Math_min_NaN [simp]: "Math_min x NaN = NaN"
  by (cases x) simp_all

lemma js_le_NaN [simp]: "js_le x NaN = False"
  by (cases x) simp_all

text \<open>The allocation loop writes nothing: when it does not leave at once, the amount of its
  first payment record is NaN and the save of the record is refused.\<close>

lemma allocate_result:
  "allocate cid dt m remaining ss d =
     (if ss = [] \<or> js_le remaining (Num 0) then (d, Inr (remaining, []))
      else (d, Inl ValidationError))"
  by (cases ss) (simp_all add: paidAmount_def savePayment_def validPayment_def)

lemma processBulkPayment_keeps:
  "sales (fst (processBulkPayment pd d)) = sales d
   \<and> paymentRecords (fst (processBulkPayment pd d)) = paymentRecords d"
  by (auto simp: processBulkPayment_def allocate_result saveCustomer_def putCustomer_def Let_def
      split: option.splits sum.splits)

lemma processBulkList_keeps:
  "sales (fst (processBulkList pds d)) = sales d
   \<and> paymentRecords (fst (processBulkList pds d)) = paymentRecords d"
proof (induction pds arbitrary: d)
  case Nil
  show ?case by simp
next
  case (Cons pd pds)
  obtain d1 r where step: "processBulkPayment pd d = (d1, r)"
    by (cases "processBulkPayment pd d")
  obtain d2 rs where rest: "processBulkList pds d1 = (d2, rs)"
    by (cases "processBulkList pds d1")
  from processBulkPayment_keeps [of pd d] step
  have "sales d1 = sales d \<and> paymentRecords d1 = paymentRecords d" by simp
  moreover from Cons.IH [of d1] rest
  have "sales d2 = sales d1 \<and> paymentRecords d2 = paymentRecords d1" by simp
  ultimately show ?case using step rest by simp
qed

lemma bulkPayments_try_keeps:
  "sales (fst (bulkPayments_try body d)) = sales d
   \<and> paymentRecords (fst (bulkPayments_try body d)) = paymentRecords d"
proof (cases body)
  case None
  then show ?thesis by (simp add: bulkPayments_try_def)
next
  case (Some pds)
  obtain d' rs where "processBulkList pds d = (d', rs)"
    by (cases "processBulkList pds d")
  with processBulkList_keeps [of pds d] Some show ?thesis
    by (simp add: bulkPayments_try_def)
qed

lemma bulkPayments_throws: "bulkPayments body d = (d, Inl ReferenceError)"
  by (simp add: bulkPayments_def startSession_def importsMongoose_def)


lemma singlePayment_session_aborts: "\<exists>e. singlePayment_session sp d = (d, Inl e)"
  by (auto simp: singlePayment_session_def singlePayment_try_def push_def Let_def
      split: option.splits sum.splits)

section \<open>Evaluating the routes on example ledgers\<close>

lemmas route_defs =
  findCustomer_def findSale_def savePayment_def validPayment_def nextPaymentId_def
  saveSale_def validateSale_def putSale_def saveCustomer_def validateCustomer_def putCustomer_def
  validEntry_def updateSaleStatus_def updateSaleStatus_try_def incCreditBalance_def
  account_def creditSale_def cashEntry_def Let_def

lemma pendingSales_scenario:
  "pendingSalesOf scenarioDb (Suc 0) = [creditSale 1 1 200 0 10 None, creditSale 2 1 500 0 20 None]"
  by (simp add: pendingSalesOf_def scenarioDb_def creditSale_def)

lemma pendingSales_excess: "pendingSalesOf excessDb (Suc 0) = [creditSale 1 1 100 0 0 None]"
  by (simp add: pendingSalesOf_def excessDb_def creditSale_def)

lemma findCustomer_scenario: "findCustomer scenarioDb (Suc 0) = Some (account 1 1000 700)"
  by (simp add: findCustomer_def scenarioDb_def account_def)

lemma findCustomer_excess: "findCustomer excessDb (Suc 0) = Some (account 1 1000 500)"
  by (simp add: findCustomer_def excessDb_def account_def)

text \<open>
  Claim C1, at Scenario C of the specification.  The account has two pending obligations,
  200 (the older one) and 500, and pays 300 with no target.  The waterfall of the
  specification over the obligations, oldest first, is 200 and 100.  The handler of POST
  /bulk allocates nothing: it throws a ReferenceError when it starts its session, on this
  and on every other request.  With the session started, its body fails the payment as
  well: the balance of the first sale is computed from \<open>sale.paidAmount\<close>, the payment
  record has amount NaN, and its save is refused; no request makes the body write a payment
  record or change a sale.
\<close>

theorem bulk_payment_allocates_nothing:
  "map s_id (pendingSalesOf scenarioDb 1) = [1, 2]
   \<and> waterfall 300 (map remainingBalance (pendingSalesOf scenarioDb 1)) = [200, 100]
   \<and> bulkPayments (Some [cashEntry 1 300]) scenarioDb = (scenarioDb, Inl ReferenceError)
   \<and> bulkPayments_try (Some [cashEntry 1 300]) scenarioDb =
       (scenarioDb, Inr [Failed (Some 1) ValidationError])
   \<and> bulkPayments body d = (d, Inl ReferenceError)
   \<and> sales (fst (bulkPayments_try body d)) = sales d
   \<and> paymentRecords (fst (bulkPayments_try body d)) = paymentRecords d"
proof -
  have "bulkPayments_try (Some [cashEntry 1 300]) scenarioDb =
       (scenarioDb, Inr [Failed (Some 1) ValidationError])"
    by (simp add: bulkPayments_try_def processBulkPayment_def cashEntry_def allocate_result
        pendingSales_scenario findCustomer_scenario)
  then show ?thesis
    using bulkPayments_try_keeps [of body d]
    by (simp add: bulkPayments_throws pendingSales_scenario creditSale_def remainingBalance_def)
qed

text \<open>
  Claim C2, at Scenario E.  The account owes 500 and has one pending obligation of 100 (and a
  cancelled one); it pays 300, more than the 100 outstanding.  The handler of POST /bulk
  has no test of the amount left over after the loop and no failure for an excess payment:
  as written it throws a ReferenceError, and with the session started its body fails the
  payment of 300 with the validation error of the payment record, the same failure that a
  payment of 50, within the outstanding amount, gets.  The ledger is unchanged.  The payment
  route of the customer routes has the test that is missing here: it refuses an amount above
  the balance of the account.
\<close>

theorem bulk_excess_payment_has_no_excess_failure:
  "totalOutstanding excessDb 1 = 100
   \<and> bulkPayments (Some [cashEntry 1 300]) excessDb = (excessDb, Inl ReferenceError)
   \<and> bulkPayments_try (Some [cashEntry 1 300]) excessDb =
       (excessDb, Inr [Failed (Some 1) ValidationError])
   \<and> bulkPayments_try (Some [cashEntry 1 50]) excessDb =
       (excessDb, Inr [Failed (Some 1) ValidationError])
   \<and> customerPayment 1 600 (Some MCash) None excessDb = (excessDb, Inl AmountExceedsCreditBalance)"
proof -
  have "bulkPayments_try (Some [cashEntry 1 amount]) excessDb =
       (excessDb, Inr [Failed (Some 1) ValidationError])" if "0 < amount" for amount
    using that
    by (simp add: bulkPayments_try_def processBulkPayment_def cashEntry_def allocate_result
        pendingSales_excess findCustomer_excess)
  from this [of 300] this [of 50] show ?thesis
    by (simp add: bulkPayments_throws totalOutstanding_def pendingSales_excess creditSale_def
        remainingBalance_def customerPayment_def customerPayment_try_def findCustomer_excess
        account_def)
qed

section \<open>Gateway payments (routes/razorpay.js)\<close>

text \<open>
  Claim C3, at a failing input.  The account owes 300 on a pending sale of 500; a verified
  gateway payment of 50 for that sale arrives.  The handler saves the payment record, then
  throws a TypeError at \<open>sale.payments.push\<close> and answers with the error.  It has no
  session, so the payment record stays in the ledger although the allocation failed, with
  the sale and the balance as they were.  The routes that run in a session do not leave such
  a trace: the payment route of the customer routes either succeeds or leaves the ledger as
  it was, and the bulk route leaves it as it was.
\<close>

theorem gateway_payment_failure_keeps_payment_record:
  "verifyPayment gatewayRequest 0 overpaidDb =
     (\<lparr>customers = [account 1 1000 300], sales = [creditSale 1 1 500 0 0 None],
       paymentRecords = [\<lparr>p_id = 0, p_sale = Some 1, p_customer = Some 1, p_amount = Num 50,
                          p_date = 0, p_method = MRazorpay\<rparr>],
       products = []\<rparr>,
      Inl TypeError)
   \<and> (fst (customerPayment i amount m saleId d) = d
        \<or> (\<exists>c. snd (customerPayment i amount m saleId d) = Inr c))
   \<and> fst (bulkPayments body d) = d"
proof -
  have "fst (customerPayment i amount m saleId d) = d
        \<or> (\<exists>c. snd (customerPayment i amount m saleId d) = Inr c)"
    by (auto simp: customerPayment_def split: sum.splits)
  then show ?thesis
    by (simp add: bulkPayments_throws verifyPayment_def verifyPayment_sale_def push_def
        gatewayRequest_def overpaidDb_def route_defs)
qed

text \<open>
  Claim C10, at a failing input.  The account owes 300 on a pending sale of 500; a verified
  gateway payment of 450 for that sale arrives, with the id of the customer.  The claim
  gives the balance \<open>max(0, 300 - 450) = 0\<close>.  The handler saves the payment record and
  throws a TypeError at \<open>sale.payments.push\<close>, before it reaches the customer: the balance
  stays 300.  The clamp is reached only when the id of the sale names no sale; then the
  balance becomes 0 and is saved, and the handler throws a ReferenceError at the
  notification.
\<close>

theorem gateway_payment_misses_clamp:
  "verifyPayment overpaidRequest 0 overpaidDb =
     (\<lparr>customers = [account 1 1000 300], sales = [creditSale 1 1 500 0 0 None],
       paymentRecords = [\<lparr>p_id = 0, p_sale = Some 1, p_customer = Some 1, p_amount = Num 450,
                          p_date = 0, p_method = MRazorpay\<rparr>],
       products = []\<rparr>,
      Inl TypeError)
   \<and> max 0 (creditBalance (account 1 1000 300) - vr_amount overpaidRequest) = 0
   \<and> verifyPayment strayRequest 0 overpaidDb =
       (\<lparr>customers = [(account 1 1000 300)\<lparr>creditBalance := 0\<rparr>],
         sales = [creditSale 1 1 500 0 0 None],
         paymentRecords = [\<lparr>p_id = 0, p_sale = Some 9, p_customer = Some 1, p_amount = Num 450,
                            p_date = 0, p_method = MRazorpay\<rparr>],
         products = []\<rparr>,
        Inl ReferenceError)"
  by (simp add: verifyPayment_def verifyPayment_sale_def push_def overpaidRequest_def
      strayRequest_def overpaidDb_def route_defs)

section \<open>The manual status override\<close>

text \<open>
  Claim C4, at a failing input.  A valid account with balance 0 and a pending credit sale of
  100: the manual override to completed decrements the balance in place, without the
  validation of a save, and leaves it at -100.
\<close>

theorem status_override_makes_balance_negative:
  "validateCustomer (account 1 1000 0) = Inr (account 1 1000 0)
   \<and> updateSaleStatus 1 Completed settledDb =
       (\<lparr>customers = [(account 1 1000 0)\<lparr>creditBalance := - 100\<rparr>],
         sales = [(creditSale 1 1 100 0 0 None)\<lparr>s_status := Completed\<rparr>],
         paymentRecords = [], products = []\<rparr>,
        Inr ((creditSale 1 1 100 0 0 None)\<lparr>s_status := Completed\<rparr>))"
  by (simp add: route_defs settledDb_def)

text \<open>
  Claim C6, at a failing input.  A credit sale of 100 with 40 paid has an outstanding amount
  of 60, and the account has balance 60.  The manual override to completed decrements the
  balance by the total amount of the sale, 100, and leaves it at -40.
\<close>

theorem status_override_decrements_by_total:
  "remainingBalance (creditSale 1 1 100 40 0 None) = 60
   \<and> updateSaleStatus 1 Completed partlyPaidDb =
       (\<lparr>customers = [(account 1 1000 60)\<lparr>creditBalance := - 40\<rparr>],
         sales = [(creditSale 1 1 100 40 0 None)\<lparr>s_status := Completed\<rparr>],
         paymentRecords = [], products = []\<rparr>,
        Inr ((creditSale 1 1 100 40 0 None)\<lparr>s_status := Completed\<rparr>))"
  by (simp add: route_defs partlyPaidDb_def remainingBalance_def)

section \<open>The invariant of an obligation\<close>





































end
